theory Spec2Isabelle
  imports Complex_Main "HOL-Library.Sublist"
begin

section \<open>Python strings\<close>

text \<open>
  A Python \<open>str\<close> is modelled as a \<open>string\<close>. The character classes below are the ASCII
  ones: on ASCII text they agree with \<open>str.isspace\<close>, \<open>str.isdigit\<close>, \<open>str.isupper\<close>,
  \<open>str.lower\<close> and with the classes \<open>\s\<close>, \<open>\d\<close>, \<open>\w\<close> of the \<open>re\<close> module. Every other
  character is inert (no class, unchanged by case conversion). The one non-ASCII character
  that the agents name, the bullet U+2022, is written as its three UTF-8 bytes.
\<close>

definition is_space :: "char \<Rightarrow> bool" where
  "is_space c = (c \<in> set [CHR 0x09, CHR 0x0A, CHR 0x0B, CHR 0x0C, CHR 0x0D,
                           CHR 0x1C, CHR 0x1D, CHR 0x1E, CHR 0x1F, CHR 0x20])"

definition is_digit :: "char \<Rightarrow> bool" where
  "is_digit c = (c \<in> set ''0123456789'')"

definition upper_letters :: string where
  "upper_letters = ''ABCDEFGHIJKLMNOPQRSTUVWXYZ''"

definition lower_letters :: string where
  "lower_letters = ''abcdefghijklmnopqrstuvwxyz''"

definition is_upper :: "char \<Rightarrow> bool" where
  "is_upper c = (c \<in> set upper_letters)"

definition is_lower :: "char \<Rightarrow> bool" where
  "is_lower c = (c \<in> set lower_letters)"

definition is_alpha :: "char \<Rightarrow> bool" where
  "is_alpha c = (is_upper c \<or> is_lower c)"

definition is_word_char :: "char \<Rightarrow> bool" where
  "is_word_char c = (is_alpha c \<or> is_digit c \<or> c = CHR ''_'')"

definition to_lower :: "char \<Rightarrow> char" where
  "to_lower c = (case map_of (zip upper_letters lower_letters) c of Some l \<Rightarrow> l | None \<Rightarrow> c)"

definition to_upper :: "char \<Rightarrow> char" where
  "to_upper c = (case map_of (zip lower_letters upper_letters) c of Some u \<Rightarrow> u | None \<Rightarrow> c)"

definition lower :: "string \<Rightarrow> string" where
  "lower s = map to_lower s"

definition upper :: "string \<Rightarrow> string" where
  "upper s = map to_upper s"

text \<open>\<open>s.strip()\<close>, \<open>s.lstrip(chars)\<close>, \<open>s.startswith(p)\<close> and \<open>sub in s\<close>.\<close>

definition lstrip :: "string \<Rightarrow> string" where
  "lstrip s = dropWhile is_space s"

definition strip :: "string \<Rightarrow> string" where
  "strip s = rev (dropWhile is_space (rev (dropWhile is_space s)))"

definition lstrip_chars :: "string \<Rightarrow> string \<Rightarrow> string" where
  "lstrip_chars chars s = dropWhile (\<lambda>c. c \<in> set chars) s"

definition startswith :: "string \<Rightarrow> string \<Rightarrow> bool" where
  "startswith s p = prefix p s"

definition contains :: "string \<Rightarrow> string \<Rightarrow> bool" where
  "contains s sub = sublist sub s"

text \<open>The bullet character and the variants of \<open>startswith\<close> and \<open>lstrip\<close> that name it.\<close>

definition bullet :: string where
  "bullet = [CHR 0xE2, CHR 0x80, CHR 0xA2]"

fun lstrip_bullet :: "string \<Rightarrow> string \<Rightarrow> string" where
  "lstrip_bullet chars (a # b # c # s) =
     (if a \<in> set chars then lstrip_bullet chars (b # c # s)
      else if [a, b, c] = bullet then lstrip_bullet chars s
      else a # b # c # s)"
| "lstrip_bullet chars s = dropWhile (\<lambda>c. c \<in> set chars) s"

text \<open>\<open>s.split(sep)\<close> for a one-character separator: never an empty list.\<close>

fun split_on :: "char \<Rightarrow> string \<Rightarrow> string list" where
  "split_on sep [] = [[]]"
| "split_on sep (c # cs) =
     (if c = sep then [] # split_on sep cs
      else (case split_on sep cs of w # ws \<Rightarrow> (c # w) # ws | [] \<Rightarrow> [[c]]))"

definition split_lines :: "string \<Rightarrow> string list" where
  "split_lines s = split_on (CHR 0x0A) s"

text \<open>\<open>sep.join(xs)\<close>.\<close>

fun join :: "string \<Rightarrow> string list \<Rightarrow> string" where
  "join sep [] = []"
| "join sep [x] = x"
| "join sep (x # y # ys) = x @ sep @ join sep (y # ys)"

text \<open>\<open>s.replace(old, '')\<close> for a non-empty \<open>old\<close>: every occurrence, left to right.\<close>

fun remove_all :: "string \<Rightarrow> string \<Rightarrow> string" where
  "remove_all old [] = []"
| "remove_all old (c # cs) =
     (if old \<noteq> [] \<and> prefix old (c # cs)
      then remove_all old (drop (length old) (c # cs))
      else c # remove_all old cs)"



text \<open>\<open>int(s)\<close> on a string of decimal digits, and \<open>str(n)\<close> for a natural number.\<close>

definition digit_val :: "char \<Rightarrow> int" where
  "digit_val c = (case map_of (zip ''0123456789'' [0, 1, 2, 3, 4, 5, 6, 7, 8, 9]) c of
                    Some v \<Rightarrow> v | None \<Rightarrow> 0)"

definition int_of_digits :: "string \<Rightarrow> int" where
  "int_of_digits s = foldl (\<lambda>acc c. 10 * acc + digit_val c) 0 s"

definition digit_char :: "nat \<Rightarrow> char" where
  "digit_char d = ''0123456789'' ! (d mod 10)"

function str_of_nat :: "nat \<Rightarrow> string" where
  "str_of_nat n = (if n < 10 then [digit_char n] else str_of_nat (n div 10) @ [digit_char n])"
  by pat_completeness auto
termination
  by (relation "measure (\<lambda>n. n)") auto

section \<open>The regular expressions of the agents\<close>

text \<open>
  The patterns used by the agents repeat single characters only, so the matcher below
  has repetition on character classes, and sequence, alternation, groups and the word
  boundary on expressions. It is a backtracking matcher: \<open>rmatch\<close> returns every way of
  matching at the current position in the order in which \<open>re\<close> tries them, and the head
  of that list is the match that \<open>re\<close> reports.
\<close>

datatype cls = Lit char | Digit | Space | Wordc | Dot | Either cls cls

fun cls_ok :: "bool \<Rightarrow> cls \<Rightarrow> char \<Rightarrow> bool" where
  "cls_ok ic (Lit c) x = (if ic then to_lower x = to_lower c else x = c)"
| "cls_ok ic Digit x = is_digit x"
| "cls_ok ic Space x = is_space x"
| "cls_ok ic Wordc x = is_word_char x"
| "cls_ok ic Dot x = (x \<noteq> CHR 0x0A)"
| "cls_ok ic (Either a b) x = (cls_ok ic a x \<or> cls_ok ic b x)"

datatype regex =
    Atom cls
  | Rep cls nat "nat option" bool
  | Seq regex regex
  | Alt regex regex
  | Group nat regex
  | Bound
  | Eps

text \<open>A matcher state: the character before the position, the text from the position
  on, and the groups captured so far.\<close>

type_synonym mstate = "char option \<times> string \<times> (nat \<times> string) list"

text \<open>Every way of taking between \<open>lo\<close> and \<open>hi\<close> characters of a class, fewest first.\<close>

fun rep_splits ::
  "(char \<Rightarrow> bool) \<Rightarrow> nat \<Rightarrow> nat option \<Rightarrow> char option \<Rightarrow> string \<Rightarrow> (char option \<times> string) list" where
  "rep_splits ok lo hi p [] = (if lo = 0 then [(p, [])] else [])"
| "rep_splits ok lo hi p (x # xs) =
     (if lo = 0 then [(p, x # xs)] else []) @
     (if hi \<noteq> Some 0 \<and> ok x
      then rep_splits ok (lo - 1) (map_option (\<lambda>h. h - 1) hi) (Some x) xs
      else [])"

definition at_boundary :: "char option \<Rightarrow> string \<Rightarrow> bool" where
  "at_boundary p s =
     ((case p of None \<Rightarrow> False | Some c \<Rightarrow> is_word_char c) \<noteq>
      (case s of [] \<Rightarrow> False | c # _ \<Rightarrow> is_word_char c))"

fun rmatch :: "bool \<Rightarrow> regex \<Rightarrow> mstate \<Rightarrow> mstate list" where
  "rmatch ic (Atom c) (p, s, g) =
     (case s of [] \<Rightarrow> [] | x # xs \<Rightarrow> if cls_ok ic c x then [(Some x, xs, g)] else [])"
| "rmatch ic (Rep c lo hi greedy) (p, s, g) =
     map (\<lambda>(p', s'). (p', s', g))
       ((if greedy then rev else id) (rep_splits (cls_ok ic c) lo hi p s))"
| "rmatch ic (Seq r1 r2) st = concat (map (rmatch ic r2) (rmatch ic r1 st))"
| "rmatch ic (Alt r1 r2) st = rmatch ic r1 st @ rmatch ic r2 st"
| "rmatch ic (Group n r) (p, s, g) =
     map (\<lambda>(p', s', g'). (p', s', (n, take (length s - length s') s) # g'))
       (rmatch ic r (p, s, g))"
| "rmatch ic Bound (p, s, g) = (if at_boundary p s then [(p, s, g)] else [])"
| "rmatch ic Eps st = [st]"

text \<open>Pattern syntax: a literal string, \<open>c*\<close>, \<open>c+\<close>, \<open>c*?\<close>, \<open>c{n}\<close>, \<open>c{m,n}\<close>, \<open>r?\<close> and a
  sequence.\<close>

definition Str :: "string \<Rightarrow> regex" where
  "Str s = foldr (\<lambda>c r. Seq (Atom (Lit c)) r) s Eps"

definition Star :: "cls \<Rightarrow> regex" where
  "Star c = Rep c 0 None True"

definition Plus :: "cls \<Rightarrow> regex" where
  "Plus c = Rep c 1 None True"

definition LazyStar :: "cls \<Rightarrow> regex" where
  "LazyStar c = Rep c 0 None False"

definition Times :: "cls \<Rightarrow> nat \<Rightarrow> nat \<Rightarrow> regex" where
  "Times c lo hi = Rep c lo (Some hi) True"

definition Opt :: "regex \<Rightarrow> regex" where
  "Opt r = Alt r Eps"

definition Seqs :: "regex list \<Rightarrow> regex" where
  "Seqs rs = foldr Seq rs Eps"

text \<open>A match: where it starts, the matched text, and its groups (latest first).\<close>

type_synonym rmatch = "nat \<times> string \<times> (nat \<times> string) list"


definition m_text :: "rmatch \<Rightarrow> string" where
  "m_text m = fst (snd m)"

definition m_group :: "rmatch \<Rightarrow> nat \<Rightarrow> string option" where
  "m_group m n = map_of (snd (snd m)) n"

text \<open>\<open>re.search\<close>: the first position, from the left, at which the pattern matches.\<close>

fun search_from :: "bool \<Rightarrow> regex \<Rightarrow> nat \<Rightarrow> char option \<Rightarrow> string \<Rightarrow> rmatch option" where
  "search_from ic r k p s =
     (case rmatch ic r (p, s, []) of
        (p', s', g) # _ \<Rightarrow> Some (k, take (length s - length s') s, g)
      | [] \<Rightarrow> (case s of [] \<Rightarrow> None | x # xs \<Rightarrow> search_from ic r (Suc k) (Some x) xs))"


definition re_search :: "bool \<Rightarrow> regex \<Rightarrow> string \<Rightarrow> rmatch option" where
  "re_search ic r s = search_from ic r 0 None s"

text \<open>\<open>re.findall\<close>: the matches from left to right, each search resuming where the
  previous match ended. None of the patterns used with it matches the empty string.\<close>

function findall_from :: "bool \<Rightarrow> regex \<Rightarrow> nat \<Rightarrow> char option \<Rightarrow> string \<Rightarrow> rmatch list" where
  "findall_from ic r k p s =
     (case rmatch ic r (p, s, []) of
        (p', s', g) # _ \<Rightarrow>
          (k, take (length s - length s') s, g) #
            (if length s' < length s
             then findall_from ic r (k + (length s - length s')) p' s'
             else (case s of [] \<Rightarrow> [] | x # xs \<Rightarrow> findall_from ic r (Suc k) (Some x) xs))
      | [] \<Rightarrow> (case s of [] \<Rightarrow> [] | x # xs \<Rightarrow> findall_from ic r (Suc k) (Some x) xs))"
  by pat_completeness auto
termination
  by (relation "measure (\<lambda>(ic, r, k, p, s). length s)") auto

definition re_findall :: "bool \<Rightarrow> regex \<Rightarrow> string \<Rightarrow> rmatch list" where
  "re_findall ic r s = findall_from ic r 0 None s"

text \<open>\<open>m.group(n)\<close> as a string; a group that took no part in the match reads as the empty
  string, as in the tuples of \<open>re.findall\<close>.\<close>

definition group_str :: "rmatch \<Rightarrow> nat \<Rightarrow> string" where
  "group_str m n = (case m_group m n of Some g \<Rightarrow> g | None \<Rightarrow> [])"

section \<open>Exceptions and the external services\<close>

text \<open>
  A call to an external service (the language model, the search provider) is modelled by
  its outcome: \<open>Inl e\<close> when the call raises the exception \<open>e\<close>, \<open>Inr v\<close> when it returns
  \<open>v\<close>. The prompt sent to the service has no influence on what the agent does with the
  answer and is left out. An agent operation returns a value of the same kind, so that an
  exception that escapes the operation would be visible as \<open>Inl\<close>.
\<close>

datatype exn = Exception string

fun exn_message :: "exn \<Rightarrow> string" where
  "exn_message (Exception msg) = msg"

type_synonym 'a outcome = "exn + 'a"

type_synonym skills = "(string \<times> string list) list"

section \<open>CareerPlannerAgent\<close>

record career_path =
  current_role :: string
  target_role :: string
  feasibility_score :: int
  timeline_months :: int
  milestones :: "string list"
  challenges :: "string list"
  pathway_description :: string

definition total_skills :: "skills \<Rightarrow> nat" where
  "total_skills sk = sum_list (map (\<lambda>(category, skill_list). length skill_list) sk)"

definition skill_feasibility :: "skills \<Rightarrow> int" where
  "skill_feasibility sk =
     (if total_skills sk = 0 then 3
      else if total_skills sk < 3 then 4
      else if total_skills sk < 6 then 6
      else 7)"

definition calculate_fallback_path :: "string \<Rightarrow> string \<Rightarrow> skills \<Rightarrow> career_path" where
  "calculate_fallback_path current target sk =
     \<lparr> current_role = current,
       target_role = target,
       feasibility_score = skill_feasibility sk,
       timeline_months = 12,
       milestones = [''Gain required skills'', ''Build portfolio'',
                     ''Network in target industry'', ''Apply strategically''],
       challenges = [''Skill acquisition'', ''Market competition'', ''Experience requirements''],
       pathway_description = ''Standard career transition path'' \<rparr>"

text \<open>The three score patterns of \<open>_parse_career_path\<close>, all case-insensitive:
  \<^verbatim>\<open>FEASIBILITY:\s*(\d+)/10\<close>, \<^verbatim>\<open>(\d+)\s*(?:/|out of)\s*10\<close> and
  \<^verbatim>\<open>feasibility[:\s]+(\d+)\<close>.\<close>

definition feas_pattern1 :: regex where
  "feas_pattern1 = Seqs [Str ''FEASIBILITY:'', Star Space, Group 1 (Plus Digit), Str ''/10'']"

definition feas_pattern2 :: regex where
  "feas_pattern2 =
     Seqs [Group 1 (Plus Digit), Star Space, Alt (Str ''/'') (Str ''out of''), Star Space,
           Str ''10'']"

definition feas_pattern3 :: regex where
  "feas_pattern3 =
     Seqs [Str ''feasibility'', Plus (Either (Lit (CHR '':'')) Space), Group 1 (Plus Digit)]"

definition parse_feasibility :: "string \<Rightarrow> int option" where
  "parse_feasibility text =
     (case re_search True feas_pattern1 text of
        Some m \<Rightarrow> Some (int_of_digits (group_str m 1))
      | None \<Rightarrow>
          (case re_findall True feas_pattern2 text of
             m # _ \<Rightarrow> Some (int_of_digits (group_str m 1))
           | [] \<Rightarrow>
               (case re_search True feas_pattern3 text of
                  Some m \<Rightarrow> Some (int_of_digits (group_str m 1))
                | None \<Rightarrow> None)))"

text \<open>The timeline pattern \<^verbatim>\<open>(\d+)\s*(?:to\s*)?(\d+)?\s*months?\<close>.\<close>

definition months_pattern :: regex where
  "months_pattern =
     Seqs [Group 1 (Plus Digit), Star Space, Opt (Seq (Str ''to'') (Star Space)),
           Opt (Group 2 (Plus Digit)), Star Space, Str ''month'', Opt (Str ''s'')]"

definition parse_timeline :: "string \<Rightarrow> int" where
  "parse_timeline text =
     (if contains (lower text) ''month''
      then (case re_findall True months_pattern text of
              m # _ \<Rightarrow> int_of_digits (if group_str m 2 \<noteq> [] then group_str m 2 else group_str m 1)
            | [] \<Rightarrow> 12)
      else 12)"

text \<open>The milestone loop: the list so far and the flag \<open>in_milestones\<close>.\<close>

definition milestone_step :: "string list \<times> bool \<Rightarrow> string \<Rightarrow> string list \<times> bool" where
  "milestone_step st line =
     (case st of (ms, in_milestones) \<Rightarrow>
        if contains (lower line) ''milestone'' then (ms, True)
        else if in_milestones \<and>
                (startswith (strip line) ''-'' \<or> startswith (strip line) bullet \<or>
                 startswith (strip line) (str_of_nat (length ms + 1)))
        then (let milestone = strip (lstrip_bullet ''-0123456789.'' (strip line))
              in if milestone \<noteq> [] \<and> length milestone > 10 then (ms @ [milestone], in_milestones)
                 else (ms, in_milestones))
        else (ms, in_milestones))"

definition parse_milestones :: "string \<Rightarrow> string list" where
  "parse_milestones text =
     (let ms = fst (foldl milestone_step ([], False) (split_lines text))
      in if ms = []
         then [''Build foundational skills'', ''Gain relevant experience'', ''Expand network'',
               ''Apply to target roles'']
         else ms)"

definition challenge_step :: "string list \<times> bool \<Rightarrow> string \<Rightarrow> string list \<times> bool" where
  "challenge_step st line =
     (case st of (cs, in_challenges) \<Rightarrow>
        if contains (lower line) ''challenge'' \<or> contains (lower line) ''obstacle''
        then (cs, True)
        else if in_challenges \<and> (startswith (strip line) ''-'' \<or> startswith (strip line) bullet)
        then (let challenge = strip (lstrip_bullet ''-'' (strip line))
              in if challenge \<noteq> [] then (cs @ [challenge], in_challenges)
                 else (cs, in_challenges))
        else (cs, in_challenges))"

definition extract_challenges :: "string \<Rightarrow> string list" where
  "extract_challenges text =
     (let cs = fst (foldl challenge_step ([], False) (split_lines text))
      in if cs \<noteq> [] then take 5 cs else [''Skill acquisition'', ''Market competition''])"

definition parse_career_path :: "string \<Rightarrow> string \<Rightarrow> string \<Rightarrow> skills \<Rightarrow> career_path" where
  "parse_career_path text current target sk =
     (let feasibility = (case parse_feasibility text of Some f \<Rightarrow> f | None \<Rightarrow> skill_feasibility sk)
      in \<lparr> current_role = current,
            target_role = target,
            feasibility_score = min 10 (max 1 feasibility),
            timeline_months = parse_timeline text,
            milestones = take 6 (parse_milestones text),
            challenges = extract_challenges text,
            pathway_description = text \<rparr>)"

text \<open>\<open>predict_career_path\<close>: the model call and the parsing are inside one \<open>try\<close>, whose
  handler returns the skill-based estimate.\<close>

definition predict_career_path ::
  "string outcome \<Rightarrow> string \<Rightarrow> string \<Rightarrow> skills \<Rightarrow> career_path outcome" where
  "predict_career_path response current target sk =
     (case response of
        Inr content \<Rightarrow> Inr (parse_career_path content current target sk)
      | Inl e \<Rightarrow> Inr (calculate_fallback_path current target sk))"

text \<open>\<open>_parse_bridge_roles\<close>: a role is a dictionary whose four keys are set one by one, so
  each field may be absent. The empty dictionary is falsy.\<close>

record bridge_role =
  role_title :: "string option"
  rationale :: "string option"
  skills_built :: "string list option"
  role_timeline_months :: "int option"

definition empty_role :: bridge_role where
  "empty_role = \<lparr> role_title = None, rationale = None, skills_built = None,
                   role_timeline_months = None \<rparr>"

definition bridge_step ::
  "bridge_role list \<times> bridge_role \<Rightarrow> string \<Rightarrow> bridge_role list \<times> bridge_role" where
  "bridge_step st raw_line =
     (case st of (roles, cur) \<Rightarrow>
        let line = strip raw_line in
        if startswith line ''ROLE:''
        then ((if cur \<noteq> empty_role then roles @ [cur] else roles),
              empty_role\<lparr>role_title := Some (strip (remove_all ''ROLE:'' line))\<rparr>)
        else if startswith line ''WHY:''
        then (roles, cur\<lparr>rationale := Some (strip (remove_all ''WHY:'' line))\<rparr>)
        else if startswith line ''SKILLS:''
        then (roles, cur\<lparr>skills_built :=
                Some (map strip (split_on (CHR '','') (strip (remove_all ''SKILLS:'' line))))\<rparr>)
        else if startswith line ''TIMELINE:''
        then (roles, cur\<lparr>role_timeline_months :=
                Some (case re_findall False (Plus Digit) line of
                        m # _ \<Rightarrow> int_of_digits (m_text m) | [] \<Rightarrow> 12)\<rparr>)
        else if line = ''---'' \<and> cur \<noteq> empty_role
        then (roles @ [cur], empty_role)
        else (roles, cur))"

definition parse_bridge_roles :: "string \<Rightarrow> bridge_role list" where
  "parse_bridge_roles text =
     (case foldl bridge_step ([], empty_role) (split_lines text) of (roles, cur) \<Rightarrow>
        take 5 (if cur \<noteq> empty_role \<and> role_title cur \<noteq> None then roles @ [cur] else roles))"

definition recommend_bridge_roles ::
  "string outcome \<Rightarrow> string \<Rightarrow> bridge_role list outcome" where
  "recommend_bridge_roles response current =
     (case response of
        Inr content \<Rightarrow> Inr (parse_bridge_roles content)
      | Inl e \<Rightarrow>
          Inr [\<lparr> role_title = Some (''Senior '' @ current),
                 rationale = Some ''Deepens expertise before transition'',
                 skills_built = Some [''Advanced technical skills'', ''Leadership''],
                 role_timeline_months = Some 12 \<rparr>])"

text \<open>\<open>_parse_networking_strategy\<close>.\<close>

record networking_strategy =
  target_contacts :: "string list"
  events_communities :: "string list"
  outreach_template :: string

datatype nsection = TargetContacts | EventsCommunities | OutreachTemplate

definition empty_strategy :: networking_strategy where
  "empty_strategy = \<lparr> target_contacts = [], events_communities = [], outreach_template = [] \<rparr>"

definition networking_step ::
  "networking_strategy \<times> nsection option \<Rightarrow> string \<Rightarrow> networking_strategy \<times> nsection option" where
  "networking_step st raw_line =
     (case st of (strategy, current_section) \<Rightarrow>
        let line = strip raw_line in
        if contains (lower line) ''target contact'' \<or> contains (lower line) ''who to contact''
        then (strategy, Some TargetContacts)
        else if contains (lower line) ''event'' \<or> contains (lower line) ''communit''
        then (strategy, Some EventsCommunities)
        else if contains (lower line) ''template'' \<or> contains (lower line) ''message''
        then (strategy\<lparr>outreach_template := []\<rparr>, Some OutreachTemplate)
        else if current_section \<noteq> None \<and> (startswith line ''-'' \<or> startswith line bullet)
        then (let item = strip (lstrip_bullet ''-'' line) in
              case current_section of
                Some TargetContacts \<Rightarrow>
                  (strategy\<lparr>target_contacts := target_contacts strategy @ [item]\<rparr>, current_section)
              | Some EventsCommunities \<Rightarrow>
                  (strategy\<lparr>events_communities := events_communities strategy @ [item]\<rparr>,
                   current_section)
              | _ \<Rightarrow> (strategy, current_section))
        else if current_section = Some OutreachTemplate \<and> line \<noteq> []
        then (strategy\<lparr>outreach_template := outreach_template strategy @ line @ [CHR 0x0A]\<rparr>,
              current_section)
        else (strategy, current_section))"

definition parse_networking_strategy :: "string \<Rightarrow> networking_strategy" where
  "parse_networking_strategy text =
     fst (foldl networking_step (empty_strategy, None) (split_lines text))"

definition generate_networking_strategy :: "string outcome \<Rightarrow> networking_strategy outcome" where
  "generate_networking_strategy response =
     (case response of
        Inr content \<Rightarrow> Inr (parse_networking_strategy content)
      | Inl e \<Rightarrow>
          Inr \<lparr> target_contacts = [''Hiring Managers'', ''Team Leads'', ''Recruiters''],
                events_communities = [''LinkedIn Groups'', ''Industry Conferences''],
                outreach_template = ''Professional networking message template'' \<rparr>)"

section \<open>EthicsAuditorAgent\<close>

text \<open>Both audits thread three variables through a sequence of checks: the score and two
  lists of messages. \<open>list(set(xs))\<close> has no determined order, so it is kept as a set.\<close>

type_synonym audit_state = "int \<times> string list \<times> string list"

definition count_in :: "string list \<Rightarrow> string \<Rightarrow> nat" where
  "count_in words text = length (filter (\<lambda>w. contains text w) words)"

definition searches :: "bool \<Rightarrow> regex \<Rightarrow> string \<Rightarrow> bool" where
  "searches ic r text = (re_search ic r text \<noteq> None)"

record resume_audit =
  ra_score :: int
  biases_found :: "string set"
  suggestions :: "string list"
  ra_inclusive_signals :: nat
  is_biased :: bool

definition resume_keywords :: "string list" where
  "resume_keywords = [''experience'', ''skills'', ''education'', ''work'', ''project'',
     ''responsibilities'', ''achievements'', ''degree'', ''certificate'',
     ''position'', ''role'', ''company'', ''team'']"

text \<open>The age patterns \<^verbatim>\<open>\b(19|20)\d{2}\b\<close>,
  \<^verbatim>\<open>\b\d{2}\+?\s*years?\s+(?:of\s+)?experience\b\<close> and \<^verbatim>\<open>\bsenior\s+professional\b\<close>, each with
  its suggestion, and the pattern \<^verbatim>\<open>\b(ivy\s+league|top\s+tier|elite)\b\<close>.\<close>

definition age_patterns :: "(regex \<times> string) list" where
  "age_patterns =
     [(Seqs [Bound, Group 1 (Alt (Str ''19'') (Str ''20'')), Times Digit 2 2, Bound],
       ''Graduation year visible - consider removing to avoid age discrimination''),
      (Seqs [Bound, Times Digit 2 2, Opt (Str ''+''), Star Space, Str ''year'', Opt (Str ''s''),
             Plus Space, Opt (Seq (Str ''of'') (Plus Space)), Str ''experience'', Bound],
       ''Extensive years mentioned - consider 'significant experience' instead''),
      (Seqs [Bound, Str ''senior'', Plus Space, Str ''professional'', Bound],
       ''May indicate age - consider role-specific titles'')]"

definition elite_pattern :: regex where
  "elite_pattern =
     Seqs [Bound,
           Group 1 (Alt (Seqs [Str ''ivy'', Plus Space, Str ''league''])
                     (Alt (Seqs [Str ''top'', Plus Space, Str ''tier'']) (Str ''elite''))),
           Bound]"

definition masculine_coded :: "string list" where
  "masculine_coded = [''aggressive'', ''competitive'', ''dominant'', ''decisive'', ''assertive'',
     ''ambitious'']"

definition feminine_coded :: "string list" where
  "feminine_coded = [''supportive'', ''collaborative'', ''nurturing'', ''understanding'', ''loyal'']"

definition inclusive_terms :: "string list" where
  "inclusive_terms = [''diverse'', ''inclusive'', ''accessible'', ''equitable'', ''collaborative'']"

definition resume_length_check :: "string \<Rightarrow> audit_state \<Rightarrow> audit_state" where
  "resume_length_check resume_text st =
     (case st of (score, biases, sugg) \<Rightarrow>
        if length (strip resume_text) < 50
        then (30, biases @ [''Insufficient Content''],
              sugg @ [''Resume too short - provide more details about your experience and skills''])
        else (score, biases, sugg))"

definition resume_keyword_check :: "string \<Rightarrow> audit_state \<Rightarrow> audit_state" where
  "resume_keyword_check resume_text st =
     (case st of (score, biases, sugg) \<Rightarrow>
        let keyword_count = count_in resume_keywords (strip (lower resume_text)) in
        if keyword_count = 0 \<and> length (strip resume_text) > 10
        then (20, biases @ [''Invalid Content''],
              sugg @ [''Content doesn't appear to be a resume - should include work experience, skills, education''])
        else if keyword_count < 3 \<and> length (strip resume_text) > 50
        then (score - 15, biases @ [''Low Quality Resume''],
              sugg @ [''Resume lacks detail - include clear sections for experience, skills, and education''])
        else (score, biases, sugg))"

definition resume_structure_reward :: "string \<Rightarrow> audit_state \<Rightarrow> audit_state" where
  "resume_structure_reward resume_text st =
     (case st of (score, biases, sugg) \<Rightarrow>
        if count_in resume_keywords (strip (lower resume_text)) \<ge> 6
        then (score + 15, biases, sugg) else (score, biases, sugg))"

definition age_step :: "string \<Rightarrow> audit_state \<Rightarrow> regex \<times> string \<Rightarrow> audit_state" where
  "age_step resume_text st ps =
     (case st of (score, biases, sugg) \<Rightarrow>
        if searches True (fst ps) resume_text
        then (score - 5, biases @ [''Age Indicator''], sugg @ [snd ps])
        else (score, biases, sugg))"

definition gender_check :: "string \<Rightarrow> audit_state \<Rightarrow> audit_state" where
  "gender_check resume_text st =
     (let text_lower = strip (lower resume_text);
          st1 = (case st of (score, biases, sugg) \<Rightarrow>
                   if count_in masculine_coded text_lower > 3
                   then (score - 5, biases @ [''Gender-Coded Language (Masculine)''],
                         sugg @ [''Consider balancing masculine-coded words with neutral alternatives''])
                   else (score, biases, sugg))
      in (case st1 of (score, biases, sugg) \<Rightarrow>
            if count_in feminine_coded text_lower > 3
            then (score - 5, biases @ [''Gender-Coded Language (Feminine)''],
                  sugg @ [''Consider balancing feminine-coded words with neutral alternatives''])
            else (score, biases, sugg)))"

definition elite_check :: "string \<Rightarrow> audit_state \<Rightarrow> audit_state" where
  "elite_check resume_text st =
     (case st of (score, biases, sugg) \<Rightarrow>
        if searches True elite_pattern resume_text
        then (score - 3, biases @ [''Elite Institution Emphasis''],
              sugg @ [''While noting education is fine, excessive emphasis on 'elite' status may trigger bias''])
        else (score, biases, sugg))"

definition audit_resume :: "string \<Rightarrow> resume_audit" where
  "audit_resume resume_text =
     (let st1 = resume_length_check resume_text (70, [], []);
          st2 = resume_keyword_check resume_text st1;
          st3 = resume_structure_reward resume_text st2;
          st4 = foldl (age_step resume_text) st3 age_patterns;
          st5 = gender_check resume_text st4;
          st6 = elite_check resume_text st5;
          inclusive_count = count_in inclusive_terms (strip (lower resume_text))
      in (case st6 of (score6, biases, sugg) \<Rightarrow>
            let score = (if inclusive_count > 0 then score6 + int inclusive_count * 2 else score6)
            in \<lparr> ra_score = max 0 (min 100 score),
                 biases_found = set biases,
                 suggestions = sugg,
                 ra_inclusive_signals = inclusive_count,
                 is_biased = (score < 70) \<rparr>))"



















section \<open>PersonalizationAgent\<close>

record audit_result =
  score :: int
  flags :: "string list"
  ar_is_biased :: bool

definition bias_words :: "string list" where
  "bias_words = [''ninja'', ''rockstar'', ''guru'', ''dominant'', ''aggressive'', ''young'',
     ''energetic'', ''competitive'', ''ambitious'', ''assertive'', ''strong'', ''dynamic'']"

definition inclusive_words :: "string list" where
  "inclusive_words = [''diverse'', ''inclusive'', ''equitable'', ''accessible'', ''flexible'',
     ''collaborative'', ''supportive'', ''balanced'', ''equal opportunity'']"

definition found_bias :: "string \<Rightarrow> string list" where
  "found_bias job_text = filter (\<lambda>w. contains (lower job_text) w) bias_words"

definition found_inclusive :: "string \<Rightarrow> string list" where
  "found_inclusive job_text = filter (\<lambda>w. contains (lower job_text) w) inclusive_words"

text \<open>The checks of the heuristic branch, on the pair of \<open>score\<close> and \<open>flags\<close>.\<close>

definition bias_penalty :: "string \<Rightarrow> int \<times> string list \<Rightarrow> int \<times> string list" where
  "bias_penalty job_text st =
     (case st of (sc, fl) \<Rightarrow>
        if found_bias job_text \<noteq> []
        then (sc - int (length (found_bias job_text)) * 8,
              fl @ [''Potentially biased terms: '' @ join '', '' (take 3 (found_bias job_text))])
        else (sc, fl))"

definition inclusive_reward :: "string \<Rightarrow> int \<times> string list \<Rightarrow> int \<times> string list" where
  "inclusive_reward job_text st =
     (case st of (sc, fl) \<Rightarrow>
        if found_inclusive job_text \<noteq> []
        then (min (sc + int (length (found_inclusive job_text)) * 4) 100, fl)
        else (sc, fl))"

definition length_penalty :: "string \<Rightarrow> int \<times> string list \<Rightarrow> int \<times> string list" where
  "length_penalty job_text st =
     (case st of (sc, fl) \<Rightarrow> if length job_text > 2000 then (sc - 5, fl) else (sc, fl))"

text \<open>\<open>caps_ratio > 0.15\<close> compares the quotient of two string lengths with a constant; it
  is written without division, as \<open>20 * upper > 3 * max(len, 1)\<close>.\<close>

definition caps_penalty :: "string \<Rightarrow> int \<times> string list \<Rightarrow> int \<times> string list" where
  "caps_penalty job_text st =
     (case st of (sc, fl) \<Rightarrow>
        if 20 * length (filter is_upper job_text) > 3 * max (length job_text) 1
        then (sc - 10, fl @ [''Excessive capitalization detected''])
        else (sc, fl))"

definition heuristic_audit :: "string \<Rightarrow> audit_result" where
  "heuristic_audit job_text =
     (case caps_penalty job_text (length_penalty job_text (inclusive_reward job_text
             (bias_penalty job_text (75, [])))) of
        (sc, fl) \<Rightarrow>
          \<lparr> score = max 45 (min 100 sc),
            flags = (if fl = [] then [''Basic audit completed (API unavailable)''] else fl),
            ar_is_biased = (sc < 70) \<rparr>)"

text \<open>The patterns \<^verbatim>\<open>SCORE:\s*(\d+)\<close> and \<^verbatim>\<open>FLAGS:\s*(.+)\<close> of the model branch.\<close>

definition score_pattern :: regex where
  "score_pattern = Seqs [Str ''SCORE:'', Star Space, Group 1 (Plus Digit)]"

definition flags_pattern :: regex where
  "flags_pattern = Seqs [Str ''FLAGS:'', Star Space, Group 1 (Plus Dot)]"

definition parse_audit_response :: "string \<Rightarrow> audit_result" where
  "parse_audit_response resp =
     (let sc = (case re_search False score_pattern resp of
                  Some m \<Rightarrow> int_of_digits (group_str m 1) | None \<Rightarrow> 75);
          flags_text = (case re_search False flags_pattern resp of
                          Some m \<Rightarrow> strip (group_str m 1) | None \<Rightarrow> ''None'')
      in \<lparr> score = sc,
           flags = map strip (filter (\<lambda>f. lower (strip f) \<noteq> ''none'')
                                (split_on (CHR '','') flags_text)),
           ar_is_biased = (sc < 70) \<rparr>)"

definition audit_failure_reason :: "exn \<Rightarrow> string" where
  "audit_failure_reason e =
     (if contains (lower (exn_message e)) ''quota'' then ''Quota Exceeded''
      else if contains (lower (exn_message e)) ''key'' then ''Invalid API Key''
      else ''Error: '' @ take 100 (exn_message e))"

text \<open>\<open>audit_job\<close>: \<open>audit_enabled\<close> is the flag set by the constructor; the response is
  the outcome of the model call, which is made in the model branch only.\<close>

definition audit_job :: "bool \<Rightarrow> string outcome \<Rightarrow> string \<Rightarrow> audit_result outcome" where
  "audit_job audit_enabled response job_text =
     (if \<not> audit_enabled then Inr (heuristic_audit job_text)
      else (case response of
              Inr resp \<Rightarrow>
                if resp = []
                then Inr \<lparr> score = 70, flags = [''Audit Skipped (Service Unavailable)''],
                           ar_is_biased = False \<rparr>
                else Inr (parse_audit_response resp)
            | Inl e \<Rightarrow>
                Inr \<lparr> score = 70,
                      flags = [''Audit Skipped ('' @ audit_failure_reason e @ '')''],
                      ar_is_biased = False \<rparr>))"

section \<open>InterviewCoachAgent\<close>

record analysis =
  strengths :: "string list"
  improvements :: "string list"

record evaluation =
  ev_score :: int
  feedback :: string
  is_correct :: string
  better_answer :: string
  detailed_analysis :: analysis

text \<open>The first line that contains a label, as in \<open>[l for l in lines if label in l][0]\<close>.\<close>

definition first_line_with :: "string \<Rightarrow> string \<Rightarrow> string option" where
  "first_line_with label text =
     (case filter (\<lambda>l. contains l label) (split_lines text) of l # _ \<Rightarrow> Some l | [] \<Rightarrow> None)"

definition parse_score :: "string \<Rightarrow> int" where
  "parse_score feedback_text =
     (if contains feedback_text ''Score:''
      then (case first_line_with ''Score:'' feedback_text of
              Some score_line \<Rightarrow>
                (let score_str = filter is_digit score_line
                 in if score_str \<noteq> [] then int_of_digits score_str else 5)
            | None \<Rightarrow> 5)
      else 5)"

definition parse_correctness :: "string \<Rightarrow> string" where
  "parse_correctness feedback_text =
     (if contains feedback_text ''Correctness:''
      then (case first_line_with ''Correctness:'' feedback_text of
              Some l \<Rightarrow>
                (if contains (lower l) ''incorrect'' then ''incorrect''
                 else if contains (lower l) ''partially'' then ''partial''
                 else if contains (lower l) ''correct'' then ''correct''
                 else ''unknown'')
            | None \<Rightarrow> ''unknown'')
      else ''unknown'')"

text \<open>The loop over the lines from the one with \<open>Better Answer:\<close> on; it stops at the first
  line that starts with \<open>STAR Method:\<close>.\<close>

fun better_lines :: "string list \<Rightarrow> string list" where
  "better_lines [] = []"
| "better_lines (l # ls) =
     (if strip l \<noteq> [] \<and>
         \<not> (startswith (strip l) ''STAR Method:'' \<or> startswith (strip l) ''Score:'' \<or>
            startswith (strip l) ''Correctness:'')
      then strip (remove_all ''Better Answer:'' l) # better_lines ls
      else if startswith (strip l) ''STAR Method:'' then []
      else better_lines ls)"

definition parse_better_answer :: "string \<Rightarrow> string" where
  "parse_better_answer feedback_text =
     (if contains feedback_text ''Better Answer:''
      then strip (join [CHR 0x0A]
             (better_lines (dropWhile (\<lambda>l. \<not> contains l ''Better Answer:'')
                              (split_lines feedback_text))))
      else [])"

datatype fsection = Strengths | Improvements

definition feedback_step ::
  "(string list \<times> string list) \<times> fsection option \<Rightarrow> string \<Rightarrow>
   (string list \<times> string list) \<times> fsection option" where
  "feedback_step st raw_line =
     (case st of ((strs, imps), current_section) \<Rightarrow>
        let line = strip raw_line in
        if contains line ''Strengths:'' then ((strs, imps), Some Strengths)
        else if contains line ''Improvements:'' \<or> contains line ''Areas for Improvement''
        then ((strs, imps), Some Improvements)
        else if startswith line ''-'' \<or> startswith line bullet
        then (let item = strip (lstrip_bullet ''-'' line) in
              if current_section = Some Strengths \<and> item \<noteq> []
              then ((strs @ [item], imps), current_section)
              else if current_section = Some Improvements \<and> item \<noteq> []
              then ((strs, imps @ [item]), current_section)
              else ((strs, imps), current_section))
        else ((strs, imps), current_section))"

definition parse_feedback :: "string \<Rightarrow> analysis" where
  "parse_feedback feedback_text =
     (case fst (foldl feedback_step (([], []), None) (split_lines feedback_text)) of
        (strs, imps) \<Rightarrow> \<lparr> strengths = take 3 strs, improvements = take 3 imps \<rparr>)"

definition evaluate_answer :: "string outcome \<Rightarrow> evaluation outcome" where
  "evaluate_answer response =
     (case response of
        Inr feedback_text \<Rightarrow>
          Inr \<lparr> ev_score = min 10 (max 1 (parse_score feedback_text)),
                feedback = feedback_text,
                is_correct = parse_correctness feedback_text,
                better_answer = parse_better_answer feedback_text,
                detailed_analysis = parse_feedback feedback_text \<rparr>
      | Inl e \<Rightarrow>
          Inr \<lparr> ev_score = 5,
                feedback = ''Error during evaluation: '' @ exn_message e @ [CHR 0x0A, CHR 0x0A] @
                           ''Please try again or check your GROQ_API_KEY configuration.'',
                is_correct = ''error'',
                better_answer = [],
                detailed_analysis =
                  \<lparr> strengths = [],
                    improvements = [''Unable to evaluate - technical error occurred''] \<rparr> \<rparr>)"

section \<open>SkillAnalyzerAgent\<close>

text \<open>A skills dictionary is a list of (category, skills) pairs with distinct keys;
  \<open>d.get(c, [])\<close> is \<open>get_skills d c\<close>.\<close>

definition get_skills :: "skills \<Rightarrow> string \<Rightarrow> string list" where
  "get_skills d category = (case map_of d category of Some l \<Rightarrow> l | None \<Rightarrow> [])"

definition parse_skills_step ::
  "(string list \<times> string list \<times> string list) \<times> string option \<Rightarrow> string \<Rightarrow>
   (string list \<times> string list \<times> string list) \<times> string option" where
  "parse_skills_step st raw_line =
     (case st of ((tech, sft, dmn), current_category) \<Rightarrow>
        let line = strip raw_line in
        if contains (upper line) ''TECHNICAL:'' then ((tech, sft, dmn), Some ''technical'')
        else if contains (upper line) ''SOFT:'' then ((tech, sft, dmn), Some ''soft'')
        else if contains (upper line) ''DOMAIN:'' then ((tech, sft, dmn), Some ''domain'')
        else if startswith line ''-'' \<and> current_category \<noteq> None
        then (let skill = strip (lstrip_chars ''-'' line) in
              if skill \<noteq> [] \<and> length skill > 2
              then (if current_category = Some ''technical'' then ((tech @ [skill], sft, dmn), current_category)
                    else if current_category = Some ''soft'' then ((tech, sft @ [skill], dmn), current_category)
                    else ((tech, sft, dmn @ [skill]), current_category))
              else ((tech, sft, dmn), current_category))
        else ((tech, sft, dmn), current_category))"

definition parse_skills :: "string \<Rightarrow> skills" where
  "parse_skills text =
     (case fst (foldl parse_skills_step (([], [], []), None) (split_lines text)) of
        (tech, sft, dmn) \<Rightarrow> [(''technical'', tech), (''soft'', sft), (''domain'', dmn)])"

definition extract_skills_from_text :: "string outcome \<Rightarrow> skills outcome" where
  "extract_skills_from_text response =
     (case response of
        Inr content \<Rightarrow> Inr (parse_skills content)
      | Inl e \<Rightarrow> Inr [(''technical'', []), (''soft'', []), (''domain'', [])])"

text \<open>\<open>_skills_similar\<close>: the words of a skill are the matches of \<^verbatim>\<open>\w+\<close>, without the stop
  words. The test \<open>len(shared) / max(len(words1), len(words2)) >= 0.5\<close> divides two small
  counts and is written without division.\<close>

definition stop_words :: "string set" where
  "stop_words = set [''and'', ''or'', ''the'', ''in'', ''with'', ''for'', ''to'', ''of'', ''a'', ''an'']"

definition skill_words :: "string \<Rightarrow> string set" where
  "skill_words skill = set (map m_text (re_findall False (Plus Wordc) (lower skill))) - stop_words"

definition skills_similar :: "string \<Rightarrow> string \<Rightarrow> bool" where
  "skills_similar skill1 skill2 =
     (let words1 = skill_words skill1; words2 = skill_words skill2 in
      if words1 = {} \<or> words2 = {} then False
      else 2 * card (words1 \<inter> words2) \<ge> max (card words1) (card words2))"

definition skill_matches :: "string \<Rightarrow> string \<Rightarrow> bool" where
  "skill_matches job_skill resume_skill =
     (contains (lower resume_skill) (lower job_skill) \<or>
      contains (lower job_skill) (lower resume_skill) \<or>
      skills_similar (lower job_skill) (lower resume_skill))"

text \<open>The inner loop over the resume skills, which stops at the first match.\<close>

fun is_matched :: "string \<Rightarrow> string list \<Rightarrow> bool" where
  "is_matched job_skill [] = False"
| "is_matched job_skill (resume_skill # rest) =
     (if skill_matches job_skill resume_skill then True else is_matched job_skill rest)"

record gaps =
  critical :: "string list"
  moderate :: "string list"
  minor :: "string list"

record matched =
  technical :: "string list"
  soft :: "string list"
  domain :: "string list"

definition add_matched :: "string \<Rightarrow> string \<Rightarrow> matched \<Rightarrow> matched" where
  "add_matched category skill m =
     (if category = ''technical'' then m\<lparr>technical := technical m @ [skill]\<rparr>
      else if category = ''soft'' then m\<lparr>soft := soft m @ [skill]\<rparr>
      else if category = ''domain'' then m\<lparr>domain := domain m @ [skill]\<rparr>
      else m)"

definition get_matched :: "matched \<Rightarrow> string \<Rightarrow> string list" where
  "get_matched m category =
     (if category = ''technical'' then technical m
      else if category = ''soft'' then soft m
      else if category = ''domain'' then domain m
      else [])"

definition add_gap :: "string \<Rightarrow> string \<Rightarrow> gaps \<Rightarrow> gaps" where
  "add_gap category skill g =
     (if category = ''technical'' then g\<lparr>critical := critical g @ [skill]\<rparr>
      else if category = ''domain'' then g\<lparr>moderate := moderate g @ [skill]\<rparr>
      else g\<lparr>minor := minor g @ [skill]\<rparr>)"

definition categories :: "string list" where
  "categories = [''technical'', ''soft'', ''domain'']"

definition skill_step :: "skills \<Rightarrow> string \<Rightarrow> gaps \<times> matched \<Rightarrow> string \<Rightarrow> gaps \<times> matched" where
  "skill_step resume_skills category st job_skill =
     (case st of (g, m) \<Rightarrow>
        if is_matched job_skill (get_skills resume_skills category)
        then (g, add_matched category job_skill m)
        else (add_gap category job_skill g, m))"

definition category_step :: "skills \<Rightarrow> skills \<Rightarrow> gaps \<times> matched \<Rightarrow> string \<Rightarrow> gaps \<times> matched" where
  "category_step resume_skills job_skills st category =
     foldl (skill_step resume_skills category) st (get_skills job_skills category)"

definition compare_skills :: "skills \<Rightarrow> skills \<Rightarrow> gaps \<times> matched" where
  "compare_skills resume_skills job_skills =
     foldl (category_step resume_skills job_skills)
       (\<lparr> critical = [], moderate = [], minor = [] \<rparr>,
        \<lparr> technical = [], soft = [], domain = [] \<rparr>) categories"

text \<open>
  The match percentage is computed in floating point. The two operations and the final
  \<open>round(x, 1)\<close> are parameters: \<open>fl\<close> rounds the exact result of one operation to the
  nearest float, \<open>round1\<close> rounds a float to one decimal. The division raises on a zero
  divisor; with no required skill the value is the integer 0, which \<open>round\<close> returns
  unchanged.
\<close>

definition true_div :: "(real \<Rightarrow> real) \<Rightarrow> nat \<Rightarrow> nat \<Rightarrow> real outcome" where
  "true_div fl a b =
     (if b = 0 then Inl (Exception ''division by zero'') else Inr (fl (real a / real b)))"

definition total_required :: "skills \<Rightarrow> nat" where
  "total_required job_skills = sum_list (map (\<lambda>c. length (get_skills job_skills c)) categories)"

definition total_matched :: "matched \<Rightarrow> nat" where
  "total_matched m = length (technical m) + length (soft m) + length (domain m)"

definition match_percentage_of ::
  "(real \<Rightarrow> real) \<Rightarrow> (real \<Rightarrow> real) \<Rightarrow> nat \<Rightarrow> nat \<Rightarrow> real outcome" where
  "match_percentage_of fl round1 n_matched n_required =
     (if n_required > 0
      then (case true_div fl n_matched n_required of
              Inl e \<Rightarrow> Inl e
            | Inr q \<Rightarrow> Inr (round1 (fl (q * 100))))
      else Inr 0)"

record skill_analysis =
  sa_gaps :: gaps
  sa_matched :: matched
  match_percentage :: real
  sa_resume_skills :: skills
  sa_job_skills :: skills

definition analyze_skill_gaps ::
  "(real \<Rightarrow> real) \<Rightarrow> (real \<Rightarrow> real) \<Rightarrow> skills \<Rightarrow> skills \<Rightarrow> skill_analysis outcome" where
  "analyze_skill_gaps fl round1 resume_skills job_skills =
     (case compare_skills resume_skills job_skills of (g, m) \<Rightarrow>
        (case match_percentage_of fl round1 (total_matched m) (total_required job_skills) of
           Inl e \<Rightarrow> Inl e
         | Inr p \<Rightarrow>
             Inr \<lparr> sa_gaps = g, sa_matched = m, match_percentage = p,
                   sa_resume_skills = resume_skills, sa_job_skills = job_skills \<rparr>))"

section \<open>SearchAgent\<close>

record job_search_config =
  job_title :: string
  location :: "string option"
  work_style :: "string option"
  num_jobs :: int

record search_result =
  url :: string
  title_of :: "string option"
  text_of :: "string option"
  published_date :: "string option"

record raw_job =
  rj_title :: "string option"
  rj_url :: string
  rj_text :: string
  rj_published_date :: "string option"

record search_state =
  raw_results :: "raw_job list"
  status :: string
  count :: nat

definition job_url_patterns :: "string list" where
  "job_url_patterns = [''/job/'', ''/jobs/'', ''/career'', ''/apply'', ''/position'',
     ''/opening'', ''/vacancy'', ''/hiring'', ''/recruit'']"

definition exclude_patterns :: "string list" where
  "exclude_patterns = [''/blog/'', ''/news/'', ''/article/'', ''/post/'', ''/story/'',
     ''/updates/'', ''/press/'', ''/media/'', ''/tips/'', ''/guide/'', ''/advice/'',
     ''/search/'', ''/browse/'', ''/directory/'', ''/list/'']"

definition aggregated_phrases :: "string list" where
  "aggregated_phrases = [''jobs in'', ''job openings in'', ''positions in'', ''vacancies in'',
     ''jobs available'', ''job listings'', ''careers in'',
     ''remote jobs'', ''job search'', ''find jobs'', ''jobs at'',
     ''hiring for'', ''open positions'', ''employment opportunities'',
     ''fully remote'', ''best companies'']"

definition job_content_indicators :: "string list" where
  "job_content_indicators = [''apply now'', ''submit application'', ''job description'',
     ''requirements:'', ''responsibilities:'', ''qualifications:'',
     ''salary'', ''compensation'', ''benefits'', ''experience required'',
     ''apply for this job'', ''send resume'', ''submit cv'',
     ''job summary'', ''about the role'', ''what you will do'']"

text \<open>The pattern \<^verbatim>\<open>\d+\s+.*?\bjobs?\b\<close> for titles that count jobs.\<close>

definition count_title_pattern :: regex where
  "count_title_pattern =
     Seqs [Plus Digit, Plus Space, LazyStar Dot, Bound, Str ''job'', Opt (Str ''s''), Bound]"

definition is_job_posting :: "string \<Rightarrow> string option \<Rightarrow> string option \<Rightarrow> bool" where
  "is_job_posting u t x =
     (let url_lower = lower u;
          title_lower = (case t of Some s \<Rightarrow> lower s | None \<Rightarrow> []);
          text_lower = (case x of Some s \<Rightarrow> lower s | None \<Rightarrow> [])
      in if list_ex (\<lambda>pattern. contains url_lower pattern) exclude_patterns then False
         else if searches False count_title_pattern title_lower then False
         else if list_ex (\<lambda>phrase. contains title_lower phrase) aggregated_phrases then False
         else (let indicator_count =
                     length (filter (\<lambda>i. contains text_lower i \<or> contains title_lower i)
                               job_content_indicators)
               in list_ex (\<lambda>pattern. contains url_lower pattern) job_url_patterns \<or>
                  indicator_count \<ge> 2))"

definition passes :: "search_result \<Rightarrow> bool" where
  "passes r = is_job_posting (url r) (title_of r) (text_of r)"

definition to_raw_job :: "search_result \<Rightarrow> raw_job" where
  "to_raw_job r =
     \<lparr> rj_title = title_of r,
       rj_url = url r,
       rj_text = (case text_of r of
                    Some s \<Rightarrow> if s \<noteq> [] then s else ''Job opportunity. Visit link for details.''
                  | None \<Rightarrow> ''Job opportunity. Visit link for details.''),
       rj_published_date = published_date r \<rparr>"

text \<open>The loop over the provider's results, with \<open>all_results\<close> and \<open>seen_urls\<close>; it
  stops once \<open>len(all_results) >= config.num_jobs * 2\<close> holds after an append.\<close>

fun search_loop :: "int \<Rightarrow> search_result list \<Rightarrow> raw_job list \<Rightarrow> string set \<Rightarrow> raw_job list" where
  "search_loop n [] all_results seen_urls = all_results"
| "search_loop n (r # rs) all_results seen_urls =
     (if url r \<notin> seen_urls
      then (if passes r
            then (if int (length (all_results @ [to_raw_job r])) \<ge> n * 2
                  then all_results @ [to_raw_job r]
                  else search_loop n rs (all_results @ [to_raw_job r]) (insert (url r) seen_urls))
            else search_loop n rs all_results seen_urls)
      else search_loop n rs all_results seen_urls)"

definition search :: "job_search_config \<Rightarrow> search_result list outcome \<Rightarrow> search_state outcome" where
  "search config response =
     (let all_results = (case response of
                           Inr results \<Rightarrow> search_loop (num_jobs config) results [] {}
                         | Inl e \<Rightarrow> [])
      in Inr \<lparr> raw_results = all_results,
               status = (if all_results \<noteq> [] then ''success'' else ''no_results''),
               count = length all_results \<rparr>)"

section \<open>Verified properties\<close>

subsection \<open>Career path: the skill-based estimate\<close>



subsection \<open>Failure of an external call\<close>

text \<open>
  Claim C1. When the external call raises an exception \<open>e\<close>, each of
  \<open>predict_career_path\<close>, \<open>evaluate_answer\<close>, \<open>search\<close> and \<open>extract_skills_from_text\<close>
  returns normally, with its fallback value: the skill-based path, the evaluation with
  score 5, the empty search state with status \<open>no_results\<close>, and the three empty skill
  lists. The fallback has the type of a successful result, and no exception leaves the
  operation.
\<close>

theorem external_failure_gives_fallback:
  "predict_career_path (Inl e) current target sk = Inr (calculate_fallback_path current target sk)
   \<and> evaluate_answer (Inl e) =
       Inr \<lparr> ev_score = 5,
             feedback = ''Error during evaluation: '' @ exn_message e @ [CHR 0x0A, CHR 0x0A] @
                        ''Please try again or check your GROQ_API_KEY configuration.'',
             is_correct = ''error'',
             better_answer = [],
             detailed_analysis =
               \<lparr> strengths = [],
                 improvements = [''Unable to evaluate - technical error occurred''] \<rparr> \<rparr>
   \<and> search config (Inl e) = Inr \<lparr> raw_results = [], status = ''no_results'', count = 0 \<rparr>
   \<and> extract_skills_from_text (Inl e) =
       Inr [(''technical'', []), (''soft'', []), (''domain'', [])]"
  by (simp add: predict_career_path_def evaluate_answer_def search_def
      extract_skills_from_text_def)

theorem external_failure_gives_fallback_witness:
  "predict_career_path (Inl (Exception ''timeout'')) ''Clerk'' ''Analyst'' [(''technical'', [''sql''])] =
     Inr \<lparr> current_role = ''Clerk'', target_role = ''Analyst'', feasibility_score = 4,
           timeline_months = 12,
           milestones = [''Gain required skills'', ''Build portfolio'',
                         ''Network in target industry'', ''Apply strategically''],
           challenges = [''Skill acquisition'', ''Market competition'', ''Experience requirements''],
           pathway_description = ''Standard career transition path'' \<rparr>
   \<and> search \<lparr> job_title = ''Analyst'', location = None, work_style = None, num_jobs = 5 \<rparr>
        (Inl (Exception ''timeout'')) =
     Inr \<lparr> raw_results = [], status = ''no_results'', count = 0 \<rparr>"
  using external_failure_gives_fallback [of "Exception ''timeout''" "''Clerk''" "''Analyst''"
      "[(''technical'', [''sql''])]"
      "\<lparr> job_title = ''Analyst'', location = None, work_style = None, num_jobs = 5 \<rparr>"]
  by (simp add: calculate_fallback_path_def skill_feasibility_def total_skills_def)

subsection \<open>Ranges of the numeric fields\<close>

lemma feasibility_in_range:
  "1 \<le> feasibility_score (parse_career_path text current target sk)
   \<and> feasibility_score (parse_career_path text current target sk) \<le> 10"
  by (simp add: parse_career_path_def Let_def)

lemma audit_resume_in_range:
  "0 \<le> ra_score (audit_resume resume_text) \<and> ra_score (audit_resume resume_text) \<le> 100"
  by (simp add: audit_resume_def Let_def split: prod.splits)

lemma heuristic_audit_in_range:
  "45 \<le> score (heuristic_audit job_text) \<and> score (heuristic_audit job_text) \<le> 100"
  by (simp add: heuristic_audit_def split: prod.splits)

text \<open>
  Claim C2. The feasibility score lies in 1..10 and the resume score in 0..100, as the
  lemmas above show, and the heuristic branch of \<open>audit_job\<close> keeps its score in 45..100.
  The model branch of \<open>audit_job\<close> returns the number after \<open>SCORE:\<close> as it stands: for
  the response \<open>SCORE: 150\<close> the score of the result is 150.
\<close>

theorem audit_job_score_unclamped:
  "audit_job True (Inr (''SCORE: 150'' @ [CHR 0x0A] @ ''FLAGS: None'')) ''We are hiring'' =
     Inr \<lparr> score = 150, flags = [], ar_is_biased = False \<rparr>"
  by code_simp

subsection \<open>Parsers on a text without labels\<close>














subsection \<open>Short resumes\<close>





subsection \<open>The requested score format\<close>






subsection \<open>The term ninja in the heuristic audits\<close>







lemma later_checks_keep_flags:
  "snd st \<noteq> [] \<Longrightarrow>
   snd (caps_penalty job_text (length_penalty job_text (inclusive_reward job_text st))) \<noteq> []"
  by (cases st) (simp add: caps_penalty_def length_penalty_def inclusive_reward_def)











subsection \<open>Skill gaps\<close>


lemma technical_fold:
  "foldl (skill_step resume ''technical'') (g, m) js =
     (g\<lparr>critical := critical g @ filter (\<lambda>j. \<not> is_matched j (get_skills resume ''technical'')) js\<rparr>,
      m\<lparr>technical := technical m @ filter (\<lambda>j. is_matched j (get_skills resume ''technical'')) js\<rparr>)"
  by (induction js arbitrary: g m) (simp_all add: skill_step_def add_gap_def add_matched_def)

lemma soft_fold:
  "foldl (skill_step resume ''soft'') (g, m) js =
     (g\<lparr>minor := minor g @ filter (\<lambda>j. \<not> is_matched j (get_skills resume ''soft'')) js\<rparr>,
      m\<lparr>soft := soft m @ filter (\<lambda>j. is_matched j (get_skills resume ''soft'')) js\<rparr>)"
  by (induction js arbitrary: g m) (simp_all add: skill_step_def add_gap_def add_matched_def)

lemma domain_fold:
  "foldl (skill_step resume ''domain'') (g, m) js =
     (g\<lparr>moderate := moderate g @ filter (\<lambda>j. \<not> is_matched j (get_skills resume ''domain'')) js\<rparr>,
      m\<lparr>domain := domain m @ filter (\<lambda>j. is_matched j (get_skills resume ''domain'')) js\<rparr>)"
  by (induction js arbitrary: g m) (simp_all add: skill_step_def add_gap_def add_matched_def)

lemma compare_skills_closed:
  "compare_skills resume job =
     (\<lparr> critical = filter (\<lambda>j. \<not> is_matched j (get_skills resume ''technical''))
                       (get_skills job ''technical''),
        moderate = filter (\<lambda>j. \<not> is_matched j (get_skills resume ''domain''))
                       (get_skills job ''domain''),
        minor = filter (\<lambda>j. \<not> is_matched j (get_skills resume ''soft''))
                       (get_skills job ''soft'') \<rparr>,
      \<lparr> technical = filter (\<lambda>j. is_matched j (get_skills resume ''technical''))
                       (get_skills job ''technical''),
        soft = filter (\<lambda>j. is_matched j (get_skills resume ''soft'')) (get_skills job ''soft''),
        domain = filter (\<lambda>j. is_matched j (get_skills resume ''domain''))
                       (get_skills job ''domain'') \<rparr>)"
  by (simp add: compare_skills_def categories_def category_step_def technical_fold soft_fold
      domain_fold)

lemma total_matched_le_required:
  "total_matched (snd (compare_skills resume job)) \<le> total_required job"
proof -
  let ?m = "\<lambda>c. filter (\<lambda>j. is_matched j (get_skills resume c)) (get_skills job c)"
  have m: "total_matched (snd (compare_skills resume job)) =
             length (?m ''technical'') + length (?m ''soft'') + length (?m ''domain'')"
    by (simp add: compare_skills_closed total_matched_def)
  have r: "total_required job =
             length (get_skills job ''technical'') + length (get_skills job ''soft'') +
             length (get_skills job ''domain'')"
    by (simp add: total_required_def categories_def)
  show ?thesis
    unfolding m r by (intro add_mono length_filter_le)
qed




subsection \<open>The match percentage\<close>

lemma match_percentage_of_bounds:
  assumes "mono fl" "fl 0 = 0" "fl 1 = 1" "fl 100 = 100"
    and "mono round1" "round1 0 = 0" "round1 100 = 100"
    and "m \<le> t"
  shows "\<exists>p. match_percentage_of fl round1 m t = Inr p \<and> 0 \<le> p \<and> p \<le> 100 \<and> (t = 0 \<longrightarrow> p = 0)"
proof (cases "t = 0")
  case True
  then show ?thesis by (simp add: match_percentage_of_def)
next
  case False
  let ?q = "fl (real m / real t)"
  have lo: "0 \<le> real m / real t" by simp
  have hi: "real m / real t \<le> 1" using assms(8) False by simp
  have "fl 0 \<le> ?q" by (rule monoD [OF assms(1) lo])
  moreover have "?q \<le> fl 1" by (rule monoD [OF assms(1) hi])
  ultimately have q0: "0 \<le> ?q * 100" and q1: "?q * 100 \<le> 100"
    using assms(2,3) by simp_all
  have "fl 0 \<le> fl (?q * 100)" by (rule monoD [OF assms(1) q0])
  moreover have "fl (?q * 100) \<le> fl 100" by (rule monoD [OF assms(1) q1])
  ultimately have f0: "0 \<le> fl (?q * 100)" and f1: "fl (?q * 100) \<le> 100"
    using assms(2,4) by simp_all
  have "round1 0 \<le> round1 (fl (?q * 100))" by (rule monoD [OF assms(5) f0])
  moreover have "round1 (fl (?q * 100)) \<le> round1 100" by (rule monoD [OF assms(5) f1])
  ultimately have "0 \<le> round1 (fl (?q * 100))" and "round1 (fl (?q * 100)) \<le> 100"
    using assms(6,7) by simp_all
  then show ?thesis using False by (simp add: match_percentage_of_def true_div_def)
qed

text \<open>
  Claim C9. For every monotone rounding \<open>fl\<close> of the arithmetic that leaves 0, 1 and 100
  unchanged, and every monotone \<open>round1\<close> that leaves 0 and 100 unchanged,
  \<open>analyze_skill_gaps\<close> returns normally (the division is made only when some skill is
  required, so it does not raise), its match percentage lies between 0 and 100, and it is
  0 when the job requires no skill at all.
\<close>

theorem match_percentage_in_range:
  assumes "mono fl" and "fl 0 = 0" and "fl 1 = 1" and "fl 100 = 100"
    and "mono round1" and "round1 0 = 0" and "round1 100 = 100"
  shows "\<exists>a. analyze_skill_gaps fl round1 resume job = Inr a
           \<and> 0 \<le> match_percentage a \<and> match_percentage a \<le> 100
           \<and> (total_required job = 0 \<longrightarrow> match_percentage a = 0)"
proof -
  obtain g m where gm: "compare_skills resume job = (g, m)" by (cases "compare_skills resume job")
  then have le: "total_matched m \<le> total_required job"
    using total_matched_le_required [of resume job] by simp
  from match_percentage_of_bounds [OF assms le] obtain p where
    pb: "match_percentage_of fl round1 (total_matched m) (total_required job) = Inr p \<and>
         0 \<le> p \<and> p \<le> 100 \<and> (total_required job = 0 \<longrightarrow> p = 0)" ..
  then show ?thesis
    by (simp add: analyze_skill_gaps_def gm)
qed

theorem match_percentage_in_range_witness:
  "mono (\<lambda>x::real. x) \<and> mono (\<lambda>x::real. real_of_int (round (x * 10)) / 10)
   \<and> (\<exists>a. analyze_skill_gaps (\<lambda>x. x) (\<lambda>x. real_of_int (round (x * 10)) / 10)
             [(''technical'', [''Python programming''])] [] = Inr a
          \<and> 0 \<le> match_percentage a \<and> match_percentage a \<le> 100
          \<and> (total_required [] = 0 \<longrightarrow> match_percentage a = 0))"
proof -
  have f: "mono (\<lambda>x::real. x)" by (simp add: mono_def)
  have r: "mono (\<lambda>x::real. real_of_int (round (x * 10)) / 10)"
  proof (rule monoI)
    fix x y :: real
    assume "x \<le> y"
    then have "round (x * 10) \<le> round (y * 10)" by (intro round_mono) simp
    then show "real_of_int (round (x * 10)) / 10 \<le> real_of_int (round (y * 10)) / 10"
      by (simp add: divide_right_mono)
  qed
  have r0: "(\<lambda>x::real. real_of_int (round (x * 10)) / 10) 0 = 0" by simp
  have r100: "(\<lambda>x::real. real_of_int (round (x * 10)) / 10) 100 = 100" by simp
  have e: "\<exists>a. analyze_skill_gaps (\<lambda>x. x) (\<lambda>x. real_of_int (round (x * 10)) / 10)
             [(''technical'', [''Python programming''])] [] = Inr a
          \<and> 0 \<le> match_percentage a \<and> match_percentage a \<le> 100
          \<and> (total_required [] = 0 \<longrightarrow> match_percentage a = 0)"
    by (rule match_percentage_in_range [OF f _ _ _ r r0 r100]) simp_all
  show ?thesis
    using f r e by (intro conjI)
qed

end
